theory Spec2Isabelle
  imports Main
begin

section \<open>The autocommand decorator\<close>

text \<open>
  The module \<^verbatim>\<open>autocommand/autocommand.py\<close> holds one function,
  \<^verbatim>\<open>autocommand(module, *, description, epilog, add_nos, parser, loop, forever)\<close>.
  It rejects a callable \<^verbatim>\<open>module\<close> with a \<^verbatim>\<open>TypeError\<close> and otherwise returns the
  closure \<^verbatim>\<open>autocommand_decorator\<close>, which wraps a function with \<^verbatim>\<open>autoasync\<close> (only
  when \<^verbatim>\<open>loop is not None\<close>), then \<^verbatim>\<open>autoparse\<close>, then \<^verbatim>\<open>automain(module)\<close>.

  The three wrappers and \<^verbatim>\<open>asyncio.get_event_loop\<close> live in other modules. They are
  parameters of the model: arbitrary computations that may change the world and may
  raise. The import statements inside the closure are taken to succeed.
\<close>

subsection \<open>Python values and exceptions\<close>

text \<open>
  The values that can be passed to \<^verbatim>\<open>autocommand\<close>. A callable (a function, a class, an
  object with \<^verbatim>\<open>__call__\<close>) is a \<open>PyFunc\<close>: a name and the values it closes over. Every
  other object is a \<open>PyObj\<close>. \<open>PyNone\<close> and \<open>PyBool True\<close> are the singletons that the
  source tests with \<^verbatim>\<open>is\<close>.
\<close>

datatype pyval =
    PyNone
  | PyBool bool
  | PyInt int
  | PyStr string
  | PyObj string
  | PyFunc string "pyval list"

text \<open>The builtin \<^verbatim>\<open>callable\<close>.\<close>

fun callable :: "pyval \<Rightarrow> bool" where
  "callable (PyFunc name cells) = True"
| "callable PyNone = False"
| "callable (PyBool b) = False"
| "callable (PyInt i) = False"
| "callable (PyStr s) = False"
| "callable (PyObj name) = False"

text \<open>
  An exception is the \<^verbatim>\<open>TypeError\<close> that the source raises, with its message, or any
  other exception (class name and message) that one of the wrappers raises.
\<close>

datatype exn =
    TypeError string
  | OtherException string string

subsection \<open>Computations\<close>

text \<open>
  A Python call is a function from the world before the call to the outcome and the
  world after it. The outcome is \<open>Inl\<close> of the exception raised or \<open>Inr\<close> of the value
  returned. The world is kept when an exception is raised: what was done before the
  raise stays done.
\<close>

type_synonym ('w, 'a) py = "'w \<Rightarrow> (exn + 'a) \<times> 'w"

definition return_py :: "'a \<Rightarrow> ('w, 'a) py" where
  "return_py a = (\<lambda>w. (Inr a, w))"

definition raise_py :: "exn \<Rightarrow> ('w, 'a) py" where
  "raise_py e = (\<lambda>w. (Inl e, w))"

definition bind_py :: "('w, 'a) py \<Rightarrow> ('a \<Rightarrow> ('w, 'b) py) \<Rightarrow> ('w, 'b) py" where
  "bind_py m f = (\<lambda>w. case m w of
       (Inl e, w') \<Rightarrow> (Inl e, w')
     | (Inr a, w') \<Rightarrow> f a w')"

subsection \<open>The wrappers that autocommand composes\<close>

text \<open>
  The signatures follow the call sites of the source:
  \<^verbatim>\<open>get_event_loop()\<close>,
  \<^verbatim>\<open>autoasync(func, loop=..., forever=...)\<close>,
  \<^verbatim>\<open>autoparse(func, description=..., epilog=..., add_nos=..., parser=...)\<close> and
  \<^verbatim>\<open>automain(module)\<close>, whose result is a decorator that is then called on a function.
\<close>

record 'w helpers =
  get_event_loop :: "('w, pyval) py"
  autoasync :: "pyval \<Rightarrow> pyval \<Rightarrow> pyval \<Rightarrow> ('w, pyval) py"
  autoparse :: "pyval \<Rightarrow> pyval \<Rightarrow> pyval \<Rightarrow> pyval \<Rightarrow> pyval \<Rightarrow> ('w, pyval) py"
  automain :: "pyval \<Rightarrow> ('w, pyval \<Rightarrow> ('w, pyval) py) py"

subsection \<open>autocommand\<close>

text \<open>
  The closure \<^verbatim>\<open>autocommand_decorator(func)\<close>, with the variables it captures from
  \<^verbatim>\<open>autocommand\<close> as leading arguments.
  \<^verbatim>\<open>
    if loop is not None:
        func = autoasync(func,
                         loop=get_event_loop() if loop is True else loop,
                         forever=forever)
    func = autoparse(func, description=description, epilog=epilog,
                     add_nos=add_nos, parser=parser)
    func = automain(module)(func)
    return func
  \<close>
  Python evaluates the arguments of a call before the call, so \<^verbatim>\<open>get_event_loop()\<close> runs
  before \<^verbatim>\<open>autoasync\<close>; and \<^verbatim>\<open>automain(module)\<close> is evaluated before its result is
  called on \<^verbatim>\<open>func\<close>.
\<close>

definition autocommand_decorator ::
  "'w helpers \<Rightarrow> pyval \<Rightarrow> pyval \<Rightarrow> pyval \<Rightarrow> pyval \<Rightarrow> pyval \<Rightarrow> pyval \<Rightarrow> pyval \<Rightarrow>
     pyval \<Rightarrow> ('w, pyval) py" where
  "autocommand_decorator h module description epilog add_nos parser loop forever func =
     bind_py
       (if loop \<noteq> PyNone
        then bind_py (if loop = PyBool True then get_event_loop h else return_py loop)
               (\<lambda>loop_arg. autoasync h func loop_arg forever)
        else return_py func)
       (\<lambda>func1. bind_py (autoparse h func1 description epilog add_nos parser)
       (\<lambda>func2. bind_py (automain h module)
       (\<lambda>automain_decorator. bind_py (automain_decorator func2)
       (\<lambda>func3. return_py func3))))"

text \<open>
  \<^verbatim>\<open>
    def autocommand(module, *, description=None, epilog=None, add_nos=False,
                    parser=None, loop=None, forever=False):
        if callable(module):
            raise TypeError('autocommand requires a module name argument')
        def autocommand_decorator(func): ...
        return autocommand_decorator
  \<close>
\<close>

definition autocommand ::
  "'w helpers \<Rightarrow> pyval \<Rightarrow> pyval \<Rightarrow> pyval \<Rightarrow> pyval \<Rightarrow> pyval \<Rightarrow> pyval \<Rightarrow> pyval \<Rightarrow>
     ('w, pyval \<Rightarrow> ('w, pyval) py) py" where
  "autocommand h module description epilog add_nos parser loop forever =
     (if callable module
      then raise_py (TypeError ''autocommand requires a module name argument'')
      else return_py
             (autocommand_decorator h module description epilog add_nos parser loop forever))"

subsection \<open>Observing the calls\<close>

text \<open>
  To state which wrappers were called, with which arguments and in which order, any
  set of wrappers is turned into one that behaves the same and also appends every call
  to a log carried beside the world. The log entry is written when the call is made,
  whether or not it raises.
\<close>

datatype call =
    GetEventLoopCall
  | AutoasyncCall pyval pyval pyval
  | AutoparseCall pyval pyval pyval pyval pyval
  | AutomainCall pyval
  | DecoratorCall pyval pyval

definition logged :: "call \<Rightarrow> ('w, 'a) py \<Rightarrow> ('w \<times> call list, 'a) py" where
  "logged c m = (\<lambda>(w, log). (fst (m w), (snd (m w), log @ [c])))"

definition recording :: "'w helpers \<Rightarrow> ('w \<times> call list) helpers" where
  "recording h = \<lparr>
     get_event_loop = logged GetEventLoopCall (get_event_loop h),
     autoasync = (\<lambda>func loop forever.
       logged (AutoasyncCall func loop forever) (autoasync h func loop forever)),
     autoparse = (\<lambda>func description epilog add_nos parser.
       logged (AutoparseCall func description epilog add_nos parser)
         (autoparse h func description epilog add_nos parser)),
     automain = (\<lambda>module.
       bind_py (logged (AutomainCall module) (automain h module))
         (\<lambda>d. return_py (\<lambda>func. logged (DecoratorCall module func) (d func)))) \<rparr>"

text \<open>
  The calls that \<^verbatim>\<open>autocommand_decorator(func)\<close> makes when it runs in world \<open>w\<close>, in
  order.
\<close>

definition decorator_calls ::
  "'w helpers \<Rightarrow> pyval \<Rightarrow> pyval \<Rightarrow> pyval \<Rightarrow> pyval \<Rightarrow> pyval \<Rightarrow> pyval \<Rightarrow> pyval \<Rightarrow>
     pyval \<Rightarrow> 'w \<Rightarrow> call list" where
  "decorator_calls h module description epilog add_nos parser loop forever func w =
     snd (snd (autocommand_decorator (recording h) module description epilog add_nos parser
       loop forever func (w, [])))"

fun is_autoasync_call :: "call \<Rightarrow> bool" where
  "is_autoasync_call (AutoasyncCall func loop forever) = True"
| "is_autoasync_call GetEventLoopCall = False"
| "is_autoasync_call (AutoparseCall func description epilog add_nos parser) = False"
| "is_autoasync_call (AutomainCall module) = False"
| "is_autoasync_call (DecoratorCall module func) = False"

fun is_autoparse_call :: "call \<Rightarrow> bool" where
  "is_autoparse_call (AutoparseCall func description epilog add_nos parser) = True"
| "is_autoparse_call GetEventLoopCall = False"
| "is_autoparse_call (AutoasyncCall func loop forever) = False"
| "is_autoparse_call (AutomainCall module) = False"
| "is_autoparse_call (DecoratorCall module func) = False"

subsection \<open>The steps of the closure on their own\<close>

text \<open>
  The source marks three steps in the closure. Step 1 is the conditional
  \<^verbatim>\<open>autoasync\<close> wrapping; it returns its argument unchanged when \<^verbatim>\<open>loop is None\<close>.
\<close>

definition autoasync_step :: "'w helpers \<Rightarrow> pyval \<Rightarrow> pyval \<Rightarrow> pyval \<Rightarrow> ('w, pyval) py" where
  "autoasync_step h loop forever func =
     (if loop \<noteq> PyNone
      then bind_py (if loop = PyBool True then get_event_loop h else return_py loop)
             (\<lambda>loop_arg. autoasync h func loop_arg forever)
      else return_py func)"

text \<open>Steps 2 and 3: \<^verbatim>\<open>autoparse\<close>, then \<^verbatim>\<open>automain(module)\<close> called on its result.\<close>

definition autoparse_automain_steps ::
  "'w helpers \<Rightarrow> pyval \<Rightarrow> pyval \<Rightarrow> pyval \<Rightarrow> pyval \<Rightarrow> pyval \<Rightarrow> pyval \<Rightarrow> ('w, pyval) py" where
  "autoparse_automain_steps h module description epilog add_nos parser func =
     bind_py (autoparse h func description epilog add_nos parser)
       (\<lambda>func2. bind_py (automain h module)
       (\<lambda>automain_decorator. automain_decorator func2))"

text \<open>The log entries that each part writes, read off the outcomes of the wrappers.\<close>

definition autoasync_step_calls ::
  "'w helpers \<Rightarrow> pyval \<Rightarrow> pyval \<Rightarrow> pyval \<Rightarrow> 'w \<Rightarrow> call list" where
  "autoasync_step_calls h loop forever func w =
     (if loop = PyNone then []
      else if loop = PyBool True
      then GetEventLoopCall #
             (case fst (get_event_loop h w) of
                Inl e \<Rightarrow> []
              | Inr loop_arg \<Rightarrow> [AutoasyncCall func loop_arg forever])
      else [AutoasyncCall func loop forever])"

definition autoparse_automain_calls ::
  "'w helpers \<Rightarrow> pyval \<Rightarrow> pyval \<Rightarrow> pyval \<Rightarrow> pyval \<Rightarrow> pyval \<Rightarrow> pyval \<Rightarrow> 'w \<Rightarrow> call list" where
  "autoparse_automain_calls h module description epilog add_nos parser func w =
     AutoparseCall func description epilog add_nos parser #
       (case fst (autoparse h func description epilog add_nos parser w) of
          Inl e \<Rightarrow> []
        | Inr func2 \<Rightarrow> AutomainCall module #
            (case fst (automain h module
                        (snd (autoparse h func description epilog add_nos parser w))) of
               Inl e \<Rightarrow> []
             | Inr automain_decorator \<Rightarrow> [DecoratorCall module func2]))"

subsection \<open>The composition as the specification words it\<close>

text \<open>
  \<^verbatim>\<open>automain(module)(autoparse(f, ...))\<close>, with the steps in the order the specification
  gives them: \<^verbatim>\<open>autoparse\<close> is applied to \<open>f\<close>, then \<^verbatim>\<open>automain(module)\<close> to the result.
\<close>

definition spec_without_loop ::
  "'w helpers \<Rightarrow> pyval \<Rightarrow> pyval \<Rightarrow> pyval \<Rightarrow> pyval \<Rightarrow> pyval \<Rightarrow> pyval \<Rightarrow> ('w, pyval) py" where
  "spec_without_loop h module description epilog add_nos parser f =
     bind_py (autoparse h f description epilog add_nos parser)
       (\<lambda>parsed. bind_py (automain h module) (\<lambda>wrap. wrap parsed))"

text \<open>
  \<^verbatim>\<open>automain(module)(autoparse(autoasync(f, loop=l, forever=forever), ...))\<close>: first
  \<^verbatim>\<open>autoasync\<close>, then \<^verbatim>\<open>autoparse\<close>, then \<^verbatim>\<open>automain(module)\<close>.
\<close>

definition spec_with_loop ::
  "'w helpers \<Rightarrow> pyval \<Rightarrow> pyval \<Rightarrow> pyval \<Rightarrow> pyval \<Rightarrow> pyval \<Rightarrow> pyval \<Rightarrow> pyval \<Rightarrow>
     pyval \<Rightarrow> ('w, pyval) py" where
  "spec_with_loop h module description epilog add_nos parser l forever f =
     bind_py (autoasync h f l forever)
       (\<lambda>wrapped. bind_py (autoparse h wrapped description epilog add_nos parser)
       (\<lambda>parsed. bind_py (automain h module) (\<lambda>wrap. wrap parsed)))"

subsection \<open>Sample wrappers\<close>

text \<open>
  Wrappers to run the model on concrete inputs. The world counts the calls made so far,
  and every wrapper returns a callable that records its name and its arguments.
\<close>

definition sample_helpers :: "nat helpers" where
  "sample_helpers = \<lparr>
     get_event_loop = (\<lambda>w. (Inr (PyObj ''event_loop''), Suc w)),
     autoasync = (\<lambda>func loop forever w.
       (Inr (PyFunc ''autoasync'' [func, loop, forever]), Suc w)),
     autoparse = (\<lambda>func description epilog add_nos parser w.
       (Inr (PyFunc ''autoparse'' [func, description, epilog, add_nos, parser]), Suc w)),
     automain = (\<lambda>module w.
       (Inr (\<lambda>func w'. (Inr (PyFunc ''automain'' [module, func]), Suc w')), Suc w)) \<rparr>"

text \<open>
  The sample wrappers with a \<^verbatim>\<open>get_event_loop()\<close> that raises, as it does where no event
  loop can be had.
\<close>

definition failing_loop_helpers :: "nat helpers" where
  "failing_loop_helpers = sample_helpers \<lparr>
     get_event_loop :=
       (\<lambda>w. (Inl (OtherException ''RuntimeError'' ''no current event loop''), Suc w)) \<rparr>"

text \<open>
  The sample wrappers with an \<^verbatim>\<open>automain\<close> whose decorator exits the program, as it does
  when the module is the program entry point.
\<close>

definition exiting_helpers :: "nat helpers" where
  "exiting_helpers = sample_helpers \<lparr>
     automain := (\<lambda>module w.
       (Inr (\<lambda>func w'. (Inl (OtherException ''SystemExit'' ''0''), Suc w')), Suc w)) \<rparr>"

subsection \<open>Laws of the computations\<close>

lemma bind_py_return_right: "bind_py m return_py = m"
  by (auto simp: bind_py_def return_py_def fun_eq_iff split: prod.splits sum.splits)

lemma bind_py_return_left: "bind_py (return_py a) f = f a"
  by (simp add: bind_py_def return_py_def)

lemma bind_py_assoc: "bind_py (bind_py m f) g = bind_py m (\<lambda>a. bind_py (f a) g)"
  by (auto simp: bind_py_def fun_eq_iff split: prod.splits sum.splits)

lemma bind_py_run:
  "bind_py m f w =
     (case fst (m w) of Inl e \<Rightarrow> (Inl e, snd (m w)) | Inr a \<Rightarrow> f a (snd (m w)))"
  by (simp add: bind_py_def split: prod.splits sum.splits)

lemma return_py_run [simp]: "return_py a w = (Inr a, w)"
  by (simp add: return_py_def)

lemma raise_py_run [simp]: "raise_py e w = (Inl e, w)"
  by (simp add: raise_py_def)

subsection \<open>The recording wrappers\<close>

lemma logged_run [simp]: "logged c m (w, log) = (fst (m w), (snd (m w), log @ [c]))"
  by (simp add: logged_def)

lemma recording_get_event_loop [simp]:
  "get_event_loop (recording h) = logged GetEventLoopCall (get_event_loop h)"
  by (simp add: recording_def)

lemma recording_autoasync [simp]:
  "autoasync (recording h) func loop forever =
     logged (AutoasyncCall func loop forever) (autoasync h func loop forever)"
  by (simp add: recording_def)

lemma recording_autoparse [simp]:
  "autoparse (recording h) func description epilog add_nos parser =
     logged (AutoparseCall func description epilog add_nos parser)
       (autoparse h func description epilog add_nos parser)"
  by (simp add: recording_def)

lemma recording_automain_run [simp]:
  "automain (recording h) module (w, log) =
     (case fst (automain h module w) of
        Inl e \<Rightarrow> (Inl e, (snd (automain h module w), log @ [AutomainCall module]))
      | Inr d \<Rightarrow> (Inr (\<lambda>func. logged (DecoratorCall module func) (d func)),
                 (snd (automain h module w), log @ [AutomainCall module])))"
  by (simp add: recording_def bind_py_run split: sum.splits)

text \<open>The closure is step 1 followed by steps 2 and 3.\<close>

lemma decorator_steps:
  "autocommand_decorator h module description epilog add_nos parser loop forever func =
     bind_py (autoasync_step h loop forever func)
       (autoparse_automain_steps h module description epilog add_nos parser)"
  unfolding autocommand_decorator_def autoasync_step_def autoparse_automain_steps_def
  by (simp add: bind_py_return_right fun_eq_iff)

text \<open>
  Recording changes neither the outcome nor the world; it appends the calls to the log.
\<close>

lemma autoasync_step_recorded:
  "autoasync_step (recording h) loop forever func (w, log) =
     (fst (autoasync_step h loop forever func w),
      snd (autoasync_step h loop forever func w),
      log @ autoasync_step_calls h loop forever func w)"
  by (simp add: autoasync_step_def autoasync_step_calls_def bind_py_run split: sum.split)

lemma autoparse_automain_recorded:
  "autoparse_automain_steps (recording h) module description epilog add_nos parser func
       (w, log) =
     (fst (autoparse_automain_steps h module description epilog add_nos parser func w),
      snd (autoparse_automain_steps h module description epilog add_nos parser func w),
      log @ autoparse_automain_calls h module description epilog add_nos parser func w)"
  by (simp add: autoparse_automain_steps_def autoparse_automain_calls_def bind_py_run
      split: sum.split)

lemma decorator_recorded:
  "autocommand_decorator (recording h) module description epilog add_nos parser loop forever
       func (w, log) =
     (fst (autocommand_decorator h module description epilog add_nos parser loop forever
             func w),
      snd (autocommand_decorator h module description epilog add_nos parser loop forever
             func w),
      log @ autoasync_step_calls h loop forever func w @
        (case fst (autoasync_step h loop forever func w) of
           Inl e \<Rightarrow> []
         | Inr func1 \<Rightarrow>
             autoparse_automain_calls h module description epilog add_nos parser func1
               (snd (autoasync_step h loop forever func w))))"
  by (simp add: decorator_steps bind_py_run [of "autoasync_step h loop forever func" for h]
      autoasync_step_recorded autoparse_automain_recorded split: sum.split)

lemma decorator_calls_steps:
  "decorator_calls h module description epilog add_nos parser loop forever func w =
     autoasync_step_calls h loop forever func w @
       (case fst (autoasync_step h loop forever func w) of
          Inl e \<Rightarrow> []
        | Inr func1 \<Rightarrow>
            autoparse_automain_calls h module description epilog add_nos parser func1
              (snd (autoasync_step h loop forever func w)))"
  by (simp add: decorator_calls_def decorator_recorded)

subsection \<open>The sample wrappers\<close>

lemma sample_get_event_loop [simp]:
  "get_event_loop sample_helpers w = (Inr (PyObj ''event_loop''), Suc w)"
  by (simp add: sample_helpers_def)

lemma sample_autoasync [simp]:
  "autoasync sample_helpers func loop forever w =
     (Inr (PyFunc ''autoasync'' [func, loop, forever]), Suc w)"
  by (simp add: sample_helpers_def)

lemma sample_autoparse [simp]:
  "autoparse sample_helpers func description epilog add_nos parser w =
     (Inr (PyFunc ''autoparse'' [func, description, epilog, add_nos, parser]), Suc w)"
  by (simp add: sample_helpers_def)

lemma sample_automain [simp]:
  "automain sample_helpers module w =
     (Inr (\<lambda>func w'. (Inr (PyFunc ''automain'' [module, func]), Suc w')), Suc w)"
  by (simp add: sample_helpers_def)

lemma failing_loop_get_event_loop [simp]:
  "get_event_loop failing_loop_helpers w =
     (Inl (OtherException ''RuntimeError'' ''no current event loop''), Suc w)"
  by (simp add: failing_loop_helpers_def)

lemma exiting_get_event_loop [simp]:
  "get_event_loop exiting_helpers = get_event_loop sample_helpers"
  by (simp add: exiting_helpers_def)

lemma exiting_autoasync [simp]: "autoasync exiting_helpers = autoasync sample_helpers"
  by (simp add: exiting_helpers_def)

lemma exiting_autoparse [simp]: "autoparse exiting_helpers = autoparse sample_helpers"
  by (simp add: exiting_helpers_def)

lemma exiting_automain [simp]:
  "automain exiting_helpers module w =
     (Inr (\<lambda>func w'. (Inl (OtherException ''SystemExit'' ''0''), Suc w')), Suc w)"
  by (simp add: exiting_helpers_def)

subsection \<open>The shape of the log\<close>

lemma autoasync_step_none [simp]: "autoasync_step h PyNone forever func = return_py func"
  by (simp add: autoasync_step_def)

lemma autoasync_step_calls_none [simp]: "autoasync_step_calls h PyNone forever func w = []"
  by (simp add: autoasync_step_calls_def)

lemma autoparse_automain_calls_members:
  "c \<in> set (autoparse_automain_calls h module description epilog add_nos parser func w) \<Longrightarrow>
     c = AutoparseCall func description epilog add_nos parser \<or> c = AutomainCall module \<or>
     (\<exists>func2. c = DecoratorCall module func2)"
  by (auto simp: autoparse_automain_calls_def split: sum.splits)

text \<open>Every entry of the log is one of five calls, with the arguments of the closure.\<close>

lemma decorator_calls_members:
  "c \<in> set (decorator_calls h module description epilog add_nos parser loop forever func w) \<Longrightarrow>
     c = GetEventLoopCall \<and> loop = PyBool True \<or>
     (\<exists>loop_arg. c = AutoasyncCall func loop_arg forever) \<and> loop \<noteq> PyNone \<or>
     (\<exists>func1. c = AutoparseCall func1 description epilog add_nos parser) \<or>
     c = AutomainCall module \<or>
     (\<exists>func2. c = DecoratorCall module func2)"
  by (auto simp: decorator_calls_steps autoasync_step_calls_def
      dest!: autoparse_automain_calls_members split: sum.splits if_splits)

lemma autoparse_automain_returns:
  assumes "fst (autoparse_automain_steps h module description epilog add_nos parser func w) =
    Inr v"
  shows "\<exists>func2. autoparse_automain_calls h module description epilog add_nos parser func w =
     [AutoparseCall func description epilog add_nos parser, AutomainCall module,
      DecoratorCall module func2]"
  using assms
  by (auto simp: autoparse_automain_steps_def autoparse_automain_calls_def bind_py_run
      split: sum.splits)

text \<open>
  When the closure returns, step 1 returned, and the log is the calls of step 1 followed
  by the three calls of steps 2 and 3.
\<close>

lemma decorator_returns:
  assumes "fst (autocommand_decorator h module description epilog add_nos parser loop forever
    func w) = Inr v"
  shows "\<exists>func1 func2.
     fst (autoasync_step h loop forever func w) = Inr func1 \<and>
     decorator_calls h module description epilog add_nos parser loop forever func w =
       autoasync_step_calls h loop forever func w @
       [AutoparseCall func1 description epilog add_nos parser, AutomainCall module,
        DecoratorCall module func2]"
proof (cases "fst (autoasync_step h loop forever func w)")
  case (Inl e)
  with assms show ?thesis
    by (simp add: decorator_steps bind_py_run [of "autoasync_step h loop forever func"])
next
  case (Inr func1)
  with assms have "fst (autoparse_automain_steps h module description epilog add_nos parser
      func1 (snd (autoasync_step h loop forever func w))) = Inr v"
    by (simp add: decorator_steps bind_py_run [of "autoasync_step h loop forever func"])
  from autoparse_automain_returns [OF this] Inr show ?thesis
    by (auto simp: decorator_calls_steps)
qed

lemma autoasync_step_calls_members:
  "c \<in> set (autoasync_step_calls h loop forever func w) \<Longrightarrow>
     c = GetEventLoopCall \<or> is_autoasync_call c"
  by (auto simp: autoasync_step_calls_def split: if_splits sum.splits)

lemma autoasync_step_calls_nonempty:
  "loop \<noteq> PyNone \<Longrightarrow>
     \<exists>c rest. autoasync_step_calls h loop forever func w = c # rest \<and>
       (c = GetEventLoopCall \<or> is_autoasync_call c)"
  by (simp add: autoasync_step_calls_def)

lemma autoasync_step_calls_applied:
  assumes "loop \<noteq> PyNone"
    and "loop = PyBool True \<Longrightarrow> \<exists>loop_arg. fst (get_event_loop h w) = Inr loop_arg"
  shows "\<exists>loop_arg. AutoasyncCall func loop_arg forever \<in>
    set (autoasync_step_calls h loop forever func w)"
  using assms by (auto simp: autoasync_step_calls_def)

text \<open>Without a loop the closure is steps 2 and 3 alone.\<close>

lemma decorator_without_loop:
  "autocommand_decorator h module description epilog add_nos parser PyNone forever func =
     autoparse_automain_steps h module description epilog add_nos parser func"
  by (simp add: decorator_steps bind_py_return_left)

lemma autoasync_step_calls_autoasync:
  assumes "c \<in> set (autoasync_step_calls h loop forever func w)" and "is_autoasync_call c"
  shows "loop \<noteq> PyNone \<and>
     (loop = PyBool True \<longrightarrow> (\<exists>loop_arg. fst (get_event_loop h w) = Inr loop_arg)) \<and>
     (\<exists>loop_arg. c = AutoasyncCall func loop_arg forever)"
  using assms
  by (cases "fst (get_event_loop h w)") (auto simp: autoasync_step_calls_def split: if_splits)

lemma autoparse_automain_calls_not_autoasync:
  "c \<in> set (autoparse_automain_calls h module description epilog add_nos parser func w) \<Longrightarrow>
     \<not> is_autoasync_call c"
  by (auto dest!: autoparse_automain_calls_members)

lemma decorator_calls_autoasync:
  assumes "c \<in> set (decorator_calls h module description epilog add_nos parser loop forever
    func w)" and "is_autoasync_call c"
  shows "c \<in> set (autoasync_step_calls h loop forever func w)"
  using assms
  by (auto simp: decorator_calls_steps split: sum.splits
      dest: autoparse_automain_calls_not_autoasync)

text \<open>The closure as its three steps in sequence.\<close>

lemma decorator_three_steps:
  "autocommand_decorator h module description epilog add_nos parser loop forever func =
     bind_py (autoasync_step h loop forever func)
       (\<lambda>func1. bind_py (autoparse h func1 description epilog add_nos parser)
       (\<lambda>func2. bind_py (automain h module)
       (\<lambda>automain_decorator. automain_decorator func2)))"
  by (simp add: decorator_steps autoparse_automain_steps_def [abs_def])

lemma decorator_calls_step1_returns:
  assumes "autoasync_step h loop forever func w = (Inr func1, w1)"
  shows "decorator_calls h module description epilog add_nos parser loop forever func w =
     autoasync_step_calls h loop forever func w @
       autoparse_automain_calls h module description epilog add_nos parser func1 w1"
  using assms by (simp add: decorator_calls_steps)


subsection \<open>The closure on the sample wrappers\<close>

text \<open>What the closure returns and what it calls, for every input.\<close>

lemma sample_decorator_run:
  "autocommand_decorator sample_helpers module description epilog add_nos parser loop forever
       func w =
     (if loop = PyNone
      then (Inr (PyFunc ''automain'' [module,
              PyFunc ''autoparse'' [func, description, epilog, add_nos, parser]]), w + 3)
      else if loop = PyBool True
      then (Inr (PyFunc ''automain'' [module,
              PyFunc ''autoparse'' [PyFunc ''autoasync'' [func, PyObj ''event_loop'', forever],
                description, epilog, add_nos, parser]]), w + 5)
      else (Inr (PyFunc ''automain'' [module,
              PyFunc ''autoparse'' [PyFunc ''autoasync'' [func, loop, forever],
                description, epilog, add_nos, parser]]), w + 4))"
  by (simp add: autocommand_decorator_def bind_py_def)

lemma sample_decorator_calls:
  "decorator_calls sample_helpers module description epilog add_nos parser loop forever
       func w =
     (if loop = PyNone then []
      else if loop = PyBool True
      then [GetEventLoopCall, AutoasyncCall func (PyObj ''event_loop'') forever]
      else [AutoasyncCall func loop forever]) @
     (let func1 = (if loop = PyNone then func
                   else if loop = PyBool True
                   then PyFunc ''autoasync'' [func, PyObj ''event_loop'', forever]
                   else PyFunc ''autoasync'' [func, loop, forever])
      in [AutoparseCall func1 description epilog add_nos parser, AutomainCall module,
          DecoratorCall module
            (PyFunc ''autoparse'' [func1, description, epilog, add_nos, parser])])"
  by (simp add: decorator_calls_steps autoasync_step_calls_def autoasync_step_def
      autoparse_automain_calls_def bind_py_def Let_def)

section \<open>The claims\<close>

text \<open>
  C1. For every module argument that is not callable and every function \<open>func\<close>, the
  decorator that \<^verbatim>\<open>autocommand\<close> returns applies the wrapping steps in this order: first
  (only when \<^verbatim>\<open>loop is not None\<close>) \<^verbatim>\<open>autoasync\<close>, then \<^verbatim>\<open>autoparse\<close>, then
  \<^verbatim>\<open>automain(module)\<close>. Its result is \<^verbatim>\<open>automain(module)(autoparse(autoasync(func, ...)))\<close>
  when \<^verbatim>\<open>loop\<close> is not \<^verbatim>\<open>None\<close>, where the loop passed to \<^verbatim>\<open>autoasync\<close> is evaluated first,
  and \<^verbatim>\<open>automain(module)(autoparse(func, ...))\<close> otherwise. The equation is between
  computations, so it covers the effects of the wrappers and their order as well as the
  value returned.
\<close>

theorem autocommand_three_steps_in_order:
  assumes "\<not> callable module"
  shows "\<exists>decorator.
     autocommand h module description epilog add_nos parser loop forever w =
       (Inr decorator, w) \<and>
     (\<forall>func. decorator func =
        (if loop \<noteq> PyNone
         then bind_py (if loop = PyBool True then get_event_loop h else return_py loop)
                (\<lambda>l. spec_with_loop h module description epilog add_nos parser l forever func)
         else spec_without_loop h module description epilog add_nos parser func))"
proof -
  have "autocommand_decorator h module description epilog add_nos parser loop forever func =
        (if loop \<noteq> PyNone
         then bind_py (if loop = PyBool True then get_event_loop h else return_py loop)
                (\<lambda>l. spec_with_loop h module description epilog add_nos parser l forever func)
         else spec_without_loop h module description epilog add_nos parser func)" for func
    by (simp add: autocommand_decorator_def spec_with_loop_def spec_without_loop_def
        bind_py_assoc bind_py_return_left bind_py_return_right)
  with assms show ?thesis
    by (simp add: autocommand_def)
qed

text \<open>
  On the sample wrappers, with \<^verbatim>\<open>module='__main__'\<close> and \<^verbatim>\<open>loop=True\<close>: the decorator
  makes five calls and returns the three wrappers nested in the stated order.
\<close>

theorem autocommand_three_steps_in_order_witness:
  "\<not> callable (PyStr ''__main__'') \<and>
   (\<exists>decorator.
      autocommand sample_helpers (PyStr ''__main__'') PyNone PyNone (PyBool False) PyNone
        (PyBool True) (PyBool False) 0 = (Inr decorator, 0) \<and>
      decorator (PyFunc ''main'' []) 0 =
        (Inr (PyFunc ''automain'' [PyStr ''__main__'',
           PyFunc ''autoparse'' [
             PyFunc ''autoasync'' [PyFunc ''main'' [], PyObj ''event_loop'', PyBool False],
             PyNone, PyNone, PyBool False, PyNone]]), 5))"
proof -
  have not_callable: "\<not> callable (PyStr ''__main__'')"
    by simp
  from autocommand_three_steps_in_order [OF not_callable, of sample_helpers PyNone PyNone
      "PyBool False" PyNone "PyBool True" "PyBool False" 0]
  obtain decorator where
    returned: "autocommand sample_helpers (PyStr ''__main__'') PyNone PyNone (PyBool False)
      PyNone (PyBool True) (PyBool False) 0 = (Inr decorator, 0)" and
    composed: "\<And>func. decorator func =
      bind_py (get_event_loop sample_helpers)
        (\<lambda>l. spec_with_loop sample_helpers (PyStr ''__main__'') PyNone PyNone (PyBool False)
           PyNone l (PyBool False) func)"
    by auto
  have "decorator (PyFunc ''main'' []) 0 =
        (Inr (PyFunc ''automain'' [PyStr ''__main__'',
           PyFunc ''autoparse'' [
             PyFunc ''autoasync'' [PyFunc ''main'' [], PyObj ''event_loop'', PyBool False],
             PyNone, PyNone, PyBool False, PyNone]]), 5)"
    by (simp add: composed spec_with_loop_def bind_py_def eval_nat_numeral)
  with not_callable returned show ?thesis
    by blast
qed

text \<open>
  C2. \<^verbatim>\<open>autocommand(module, ...)\<close> raises \<^verbatim>\<open>TypeError\<close> if and only if \<^verbatim>\<open>module\<close> is callable.
  For every module that is not callable it raises nothing and returns the decorator.
  Nothing is wrapped before the check: the world is left as it was, and with recording
  wrappers the log is left as it was, whatever the outcome.
\<close>

theorem autocommand_raises_iff_callable:
  "autocommand h module description epilog add_nos parser loop forever w =
     (if callable module
      then (Inl (TypeError ''autocommand requires a module name argument''), w)
      else (Inr (autocommand_decorator h module description epilog add_nos parser loop forever),
            w)) \<and>
   ((\<exists>e. fst (autocommand h module description epilog add_nos parser loop forever w) = Inl e)
      \<longleftrightarrow> callable module) \<and>
   ((\<exists>msg. fst (autocommand h module description epilog add_nos parser loop forever w) =
        Inl (TypeError msg)) \<longleftrightarrow> callable module) \<and>
   snd (autocommand (recording h) module description epilog add_nos parser loop forever
          (w, log)) = (w, log)"
  by (simp add: autocommand_def)

text \<open>
  On the sample wrappers: a function as module raises, the string \<^verbatim>\<open>'__main__'\<close> does not.
\<close>

theorem autocommand_raises_iff_callable_witness:
  "autocommand sample_helpers (PyFunc ''main'' []) PyNone PyNone (PyBool False) PyNone PyNone
     (PyBool False) 0 =
     (Inl (TypeError ''autocommand requires a module name argument''), 0) \<and>
   autocommand sample_helpers (PyStr ''__main__'') PyNone PyNone (PyBool False) PyNone PyNone
     (PyBool False) 0 =
     (Inr (autocommand_decorator sample_helpers (PyStr ''__main__'') PyNone PyNone
        (PyBool False) PyNone PyNone (PyBool False)), 0)"
  using autocommand_raises_iff_callable [of sample_helpers "PyFunc ''main'' []" PyNone PyNone
      "PyBool False" PyNone PyNone "PyBool False" 0 "[]"]
    autocommand_raises_iff_callable [of sample_helpers "PyStr ''__main__''" PyNone PyNone
      "PyBool False" PyNone PyNone "PyBool False" 0 "[]"]
  by simp

text \<open>
  C3, as amended. The event-loop step is optional and controlled by \<^verbatim>\<open>loop\<close> alone.
  \<^verbatim>\<open>autoasync\<close> is applied to \<open>func\<close> if and only if \<^verbatim>\<open>loop\<close> is not \<^verbatim>\<open>None\<close> and its loop
  argument can be evaluated, that is, \<^verbatim>\<open>get_event_loop()\<close> returns when \<^verbatim>\<open>loop is True\<close>;
  the step is entered (it calls \<^verbatim>\<open>get_event_loop\<close> or \<^verbatim>\<open>autoasync\<close>) if and only if
  \<^verbatim>\<open>loop\<close> is not \<^verbatim>\<open>None\<close>. Every \<^verbatim>\<open>autoasync\<close> call is made on \<open>func\<close>. With a loop the
  closure is: evaluate the loop argument, apply \<^verbatim>\<open>autoasync\<close>, and pass what it returns to
  \<^verbatim>\<open>autoparse\<close> and then \<^verbatim>\<open>automain(module)\<close>. With \<^verbatim>\<open>loop=None\<close> the decorated result
  involves no \<^verbatim>\<open>autoasync\<close> wrapping at all: the closure is \<^verbatim>\<open>autoparse\<close> on \<open>func\<close> itself,
  then \<^verbatim>\<open>automain(module)\<close>, and replacing \<^verbatim>\<open>autoasync\<close> and \<^verbatim>\<open>get_event_loop\<close> by anything
  leaves it the same.
\<close>

theorem autoasync_applied_iff_loop_evaluates:
  "((\<exists>c \<in> set (decorator_calls h module description epilog add_nos parser loop forever
        func w). is_autoasync_call c) \<longleftrightarrow>
      loop \<noteq> PyNone \<and>
      (loop = PyBool True \<longrightarrow> (\<exists>loop_arg. fst (get_event_loop h w) = Inr loop_arg))) \<and>
   ((\<exists>c \<in> set (decorator_calls h module description epilog add_nos parser loop forever
        func w). c = GetEventLoopCall \<or> is_autoasync_call c) \<longleftrightarrow> loop \<noteq> PyNone) \<and>
   (\<forall>c \<in> set (decorator_calls h module description epilog add_nos parser loop forever
        func w).
      is_autoasync_call c \<longrightarrow> (\<exists>loop_arg. c = AutoasyncCall func loop_arg forever)) \<and>
   (loop \<noteq> PyNone \<longrightarrow>
      autocommand_decorator h module description epilog add_nos parser loop forever func =
        bind_py (if loop = PyBool True then get_event_loop h else return_py loop)
          (\<lambda>loop_arg. bind_py (autoasync h func loop_arg forever)
          (\<lambda>func1. bind_py (autoparse h func1 description epilog add_nos parser)
          (\<lambda>func2. bind_py (automain h module)
          (\<lambda>automain_decorator. automain_decorator func2))))) \<and>
   autocommand_decorator h module description epilog add_nos parser PyNone forever func =
     bind_py (autoparse h func description epilog add_nos parser)
       (\<lambda>func2. bind_py (automain h module)
       (\<lambda>automain_decorator. automain_decorator func2)) \<and>
   autocommand_decorator (h\<lparr>get_event_loop := g, autoasync := a\<rparr>) module description epilog
       add_nos parser PyNone forever func =
     autocommand_decorator h module description epilog add_nos parser PyNone forever func"
proof (intro conjI ballI impI)
  show "(\<exists>c \<in> set (decorator_calls h module description epilog add_nos parser loop forever
        func w). is_autoasync_call c) \<longleftrightarrow>
      loop \<noteq> PyNone \<and>
      (loop = PyBool True \<longrightarrow> (\<exists>loop_arg. fst (get_event_loop h w) = Inr loop_arg))"
  proof
    assume "\<exists>c \<in> set (decorator_calls h module description epilog add_nos parser loop forever
        func w). is_autoasync_call c"
    then obtain c where
      "c \<in> set (autoasync_step_calls h loop forever func w)" and "is_autoasync_call c"
      by (blast dest: decorator_calls_autoasync)
    from autoasync_step_calls_autoasync [OF this] show
      "loop \<noteq> PyNone \<and>
       (loop = PyBool True \<longrightarrow> (\<exists>loop_arg. fst (get_event_loop h w) = Inr loop_arg))"
      by blast
  next
    assume "loop \<noteq> PyNone \<and>
      (loop = PyBool True \<longrightarrow> (\<exists>loop_arg. fst (get_event_loop h w) = Inr loop_arg))"
    with autoasync_step_calls_applied [of loop h w func forever] obtain loop_arg where
      "AutoasyncCall func loop_arg forever \<in> set (autoasync_step_calls h loop forever func w)"
      by blast
    then have "AutoasyncCall func loop_arg forever \<in>
      set (decorator_calls h module description epilog add_nos parser loop forever func w)"
      by (simp add: decorator_calls_steps)
    then show "\<exists>c \<in> set (decorator_calls h module description epilog add_nos parser loop
      forever func w). is_autoasync_call c"
      by (rule bexI [rotated]) simp
  qed
next
  show "(\<exists>c \<in> set (decorator_calls h module description epilog add_nos parser loop forever
        func w). c = GetEventLoopCall \<or> is_autoasync_call c) \<longleftrightarrow> loop \<noteq> PyNone"
  proof
    assume "\<exists>c \<in> set (decorator_calls h module description epilog add_nos parser loop forever
        func w). c = GetEventLoopCall \<or> is_autoasync_call c"
    then show "loop \<noteq> PyNone"
      by (auto dest!: decorator_calls_members)
  next
    assume "loop \<noteq> PyNone"
    from autoasync_step_calls_nonempty [OF this, of h forever func w] show
      "\<exists>c \<in> set (decorator_calls h module description epilog add_nos parser loop forever
        func w). c = GetEventLoopCall \<or> is_autoasync_call c"
      by (auto simp: decorator_calls_steps)
  qed
next
  fix c
  assume "c \<in> set (decorator_calls h module description epilog add_nos parser loop forever
    func w)" and "is_autoasync_call c"
  then show "\<exists>loop_arg. c = AutoasyncCall func loop_arg forever"
    by (auto dest!: decorator_calls_members)
next
  assume "loop \<noteq> PyNone"
  then show "autocommand_decorator h module description epilog add_nos parser loop forever
      func =
        bind_py (if loop = PyBool True then get_event_loop h else return_py loop)
          (\<lambda>loop_arg. bind_py (autoasync h func loop_arg forever)
          (\<lambda>func1. bind_py (autoparse h func1 description epilog add_nos parser)
          (\<lambda>func2. bind_py (automain h module)
          (\<lambda>automain_decorator. automain_decorator func2))))"
    by (simp add: decorator_three_steps autoasync_step_def bind_py_assoc)
next
  show "autocommand_decorator h module description epilog add_nos parser PyNone forever func =
     bind_py (autoparse h func description epilog add_nos parser)
       (\<lambda>func2. bind_py (automain h module)
       (\<lambda>automain_decorator. automain_decorator func2))"
    by (simp add: decorator_three_steps bind_py_return_left)
next
  show "autocommand_decorator (h\<lparr>get_event_loop := g, autoasync := a\<rparr>) module description
      epilog add_nos parser PyNone forever func =
     autocommand_decorator h module description epilog add_nos parser PyNone forever func"
    by (simp add: autocommand_decorator_def)
qed

text \<open>
  C3 as it is written, \<^verbatim>\<open>autoasync\<close> applied if and only if \<^verbatim>\<open>loop\<close> is not \<^verbatim>\<open>None\<close>, fails
  when \<^verbatim>\<open>loop\<close> is \<^verbatim>\<open>True\<close> and \<^verbatim>\<open>get_event_loop()\<close> raises: the argument is evaluated before
  the call, the closure raises, and \<^verbatim>\<open>autoasync\<close> is never called.
\<close>

theorem autoasync_skipped_when_get_event_loop_raises:
  "PyBool True \<noteq> PyNone \<and>
   decorator_calls failing_loop_helpers (PyStr ''__main__'') PyNone PyNone (PyBool False)
     PyNone (PyBool True) (PyBool False) (PyFunc ''main'' []) 0 = [GetEventLoopCall] \<and>
   \<not> list_ex is_autoasync_call
     (decorator_calls failing_loop_helpers (PyStr ''__main__'') PyNone PyNone (PyBool False)
        PyNone (PyBool True) (PyBool False) (PyFunc ''main'' []) 0) \<and>
   autocommand_decorator failing_loop_helpers (PyStr ''__main__'') PyNone PyNone
     (PyBool False) PyNone (PyBool True) (PyBool False) (PyFunc ''main'' []) 0 =
     (Inl (OtherException ''RuntimeError'' ''no current event loop''), 1)"
  by (simp add: decorator_calls_steps autoasync_step_calls_def autoasync_step_def
      decorator_steps bind_py_def)

text \<open>
  On the sample wrappers: with \<^verbatim>\<open>loop=True\<close> the loop argument evaluates and \<^verbatim>\<open>autoasync\<close>
  is called on the function; with \<^verbatim>\<open>loop=None\<close> the step is not entered; with a
  \<^verbatim>\<open>get_event_loop()\<close> that raises \<^verbatim>\<open>autoasync\<close> is not called.
\<close>

theorem autoasync_applied_iff_loop_evaluates_witness:
  "PyBool True \<noteq> PyNone \<and>
   fst (get_event_loop sample_helpers 0) = Inr (PyObj ''event_loop'') \<and>
   (\<exists>c \<in> set (decorator_calls sample_helpers (PyStr ''__main__'') PyNone PyNone (PyBool False)
       PyNone (PyBool True) (PyBool False) (PyFunc ''main'' []) 0).
      is_autoasync_call c \<and>
      (\<exists>loop_arg. c = AutoasyncCall (PyFunc ''main'' []) loop_arg (PyBool False))) \<and>
   \<not> (\<exists>c \<in> set (decorator_calls sample_helpers (PyStr ''__main__'') PyNone PyNone
       (PyBool False) PyNone PyNone (PyBool False) (PyFunc ''main'' []) 0).
      c = GetEventLoopCall \<or> is_autoasync_call c) \<and>
   \<not> (\<exists>c \<in> set (decorator_calls failing_loop_helpers (PyStr ''__main__'') PyNone PyNone
       (PyBool False) PyNone (PyBool True) (PyBool False) (PyFunc ''main'' []) 0).
      is_autoasync_call c)"
proof -
  have evaluates: "fst (get_event_loop sample_helpers 0) = Inr (PyObj ''event_loop'')"
    by simp
  have raises: "\<not> (\<exists>loop_arg. fst (get_event_loop failing_loop_helpers 0) = Inr loop_arg)"
    by simp
  note with_loop = autoasync_applied_iff_loop_evaluates [where h = sample_helpers
      and module = "PyStr ''__main__''" and description = PyNone and epilog = PyNone
      and add_nos = "PyBool False" and parser = PyNone and loop = "PyBool True"
      and forever = "PyBool False" and func = "PyFunc ''main'' []" and w = 0]
  note without_loop = autoasync_applied_iff_loop_evaluates [where h = sample_helpers
      and module = "PyStr ''__main__''" and description = PyNone and epilog = PyNone
      and add_nos = "PyBool False" and parser = PyNone and loop = PyNone
      and forever = "PyBool False" and func = "PyFunc ''main'' []" and w = 0]
  note failing = autoasync_applied_iff_loop_evaluates [where h = failing_loop_helpers
      and module = "PyStr ''__main__''" and description = PyNone and epilog = PyNone
      and add_nos = "PyBool False" and parser = PyNone and loop = "PyBool True"
      and forever = "PyBool False" and func = "PyFunc ''main'' []" and w = 0]
  from with_loop evaluates have "\<exists>c \<in> set (decorator_calls sample_helpers (PyStr ''__main__'')
      PyNone PyNone (PyBool False) PyNone (PyBool True) (PyBool False) (PyFunc ''main'' []) 0).
      is_autoasync_call c \<and>
      (\<exists>loop_arg. c = AutoasyncCall (PyFunc ''main'' []) loop_arg (PyBool False))"
    by blast
  moreover from without_loop have "\<not> (\<exists>c \<in> set (decorator_calls sample_helpers
      (PyStr ''__main__'') PyNone PyNone (PyBool False) PyNone PyNone (PyBool False)
      (PyFunc ''main'' []) 0). c = GetEventLoopCall \<or> is_autoasync_call c)"
    by blast
  moreover from failing raises have "\<not> (\<exists>c \<in> set (decorator_calls failing_loop_helpers
      (PyStr ''__main__'') PyNone PyNone (PyBool False) PyNone (PyBool True) (PyBool False)
      (PyFunc ''main'' []) 0). is_autoasync_call c)"
    by blast
  ultimately show ?thesis
    using evaluates by simp
qed



text \<open>
  C5. \<^verbatim>\<open>description\<close>, \<^verbatim>\<open>epilog\<close>, \<^verbatim>\<open>add_nos\<close> and \<^verbatim>\<open>parser\<close> are forwarded to \<^verbatim>\<open>autoparse\<close>
  unchanged: the closure is step 1, then \<^verbatim>\<open>autoparse\<close> with exactly these four values,
  then \<^verbatim>\<open>automain(module)\<close>; as soon as step 1 returns, \<^verbatim>\<open>autoparse\<close> is called with them
  on its result; and every call of \<^verbatim>\<open>autoparse\<close> in the log carries exactly these four
  values. \<^verbatim>\<open>autocommand\<close> uses them for nothing else: with an \<^verbatim>\<open>autoparse\<close> that ignores
  what it is passed and uses the four values, the decorator is the same whatever four
  values \<^verbatim>\<open>autocommand\<close> is given.
\<close>

theorem parser_arguments_forwarded_to_autoparse:
  "autocommand_decorator h module description epilog add_nos parser loop forever func =
     bind_py (autoasync_step h loop forever func)
       (\<lambda>func1. bind_py (autoparse h func1 description epilog add_nos parser)
       (\<lambda>func2. bind_py (automain h module)
       (\<lambda>automain_decorator. automain_decorator func2))) \<and>
   (\<forall>func1 w1. autoasync_step h loop forever func w = (Inr func1, w1) \<longrightarrow>
      AutoparseCall func1 description epilog add_nos parser \<in>
        set (decorator_calls h module description epilog add_nos parser loop forever
          func w)) \<and>
   (\<forall>c \<in> set (decorator_calls h module description epilog add_nos parser loop forever
        func w).
      is_autoparse_call c \<longrightarrow> (\<exists>func1. c = AutoparseCall func1 description epilog add_nos parser)) \<and>
   autocommand_decorator h module description epilog add_nos parser loop forever =
     autocommand_decorator
       (h\<lparr>autoparse := \<lambda>func1 d e a p. autoparse h func1 description epilog add_nos parser\<rparr>)
       module description' epilog' add_nos' parser' loop forever"
proof (intro conjI ballI impI allI)
  show "autocommand_decorator h module description epilog add_nos parser loop forever func =
     bind_py (autoasync_step h loop forever func)
       (\<lambda>func1. bind_py (autoparse h func1 description epilog add_nos parser)
       (\<lambda>func2. bind_py (automain h module)
       (\<lambda>automain_decorator. automain_decorator func2)))"
    by (rule decorator_three_steps)
next
  fix func1 w1
  assume "autoasync_step h loop forever func w = (Inr func1, w1)"
  then show "AutoparseCall func1 description epilog add_nos parser \<in>
        set (decorator_calls h module description epilog add_nos parser loop forever func w)"
    by (simp add: decorator_calls_step1_returns autoparse_automain_calls_def)
next
  fix c
  assume "c \<in> set (decorator_calls h module description epilog add_nos parser loop forever
        func w)" and "is_autoparse_call c"
  then show "\<exists>func1. c = AutoparseCall func1 description epilog add_nos parser"
    by (auto dest!: decorator_calls_members)
next
  show "autocommand_decorator h module description epilog add_nos parser loop forever =
     autocommand_decorator
       (h\<lparr>autoparse := \<lambda>func1 d e a p. autoparse h func1 description epilog add_nos parser\<rparr>)
       module description' epilog' add_nos' parser' loop forever"
    by (simp add: autocommand_decorator_def fun_eq_iff)
qed

text \<open>
  With all four arguments given, \<^verbatim>\<open>loop=True\<close> and an \<^verbatim>\<open>automain\<close> decorator that exits: the
  decoration does not return, and \<^verbatim>\<open>autoparse\<close> has been called with the four values.
\<close>

theorem parser_arguments_forwarded_to_autoparse_witness:
  "autoasync_step exiting_helpers (PyBool True) (PyBool False) (PyFunc ''main'' []) 0 =
     (Inr (PyFunc ''autoasync'' [PyFunc ''main'' [], PyObj ''event_loop'', PyBool False]), 2) \<and>
   fst (autocommand_decorator exiting_helpers (PyStr ''__main__'') (PyStr ''about'')
     (PyStr ''see also'') (PyBool True) (PyObj ''parser'') (PyBool True) (PyBool False)
     (PyFunc ''main'' []) 0) = Inl (OtherException ''SystemExit'' ''0'') \<and>
   AutoparseCall
     (PyFunc ''autoasync'' [PyFunc ''main'' [], PyObj ''event_loop'', PyBool False])
     (PyStr ''about'') (PyStr ''see also'') (PyBool True) (PyObj ''parser'') \<in>
     set (decorator_calls exiting_helpers (PyStr ''__main__'') (PyStr ''about'')
       (PyStr ''see also'') (PyBool True) (PyObj ''parser'') (PyBool True) (PyBool False)
       (PyFunc ''main'' []) 0)"
proof (intro conjI)
  show step1: "autoasync_step exiting_helpers (PyBool True) (PyBool False)
      (PyFunc ''main'' []) 0 =
      (Inr (PyFunc ''autoasync'' [PyFunc ''main'' [], PyObj ''event_loop'', PyBool False]), 2)"
    by (simp add: autoasync_step_def bind_py_def)
  show "fst (autocommand_decorator exiting_helpers (PyStr ''__main__'')
      (PyStr ''about'') (PyStr ''see also'') (PyBool True) (PyObj ''parser'') (PyBool True)
      (PyBool False) (PyFunc ''main'' []) 0) = Inl (OtherException ''SystemExit'' ''0'')"
    by (simp add: autocommand_decorator_def bind_py_def)
  show "AutoparseCall
     (PyFunc ''autoasync'' [PyFunc ''main'' [], PyObj ''event_loop'', PyBool False])
     (PyStr ''about'') (PyStr ''see also'') (PyBool True) (PyObj ''parser'') \<in>
     set (decorator_calls exiting_helpers (PyStr ''__main__'') (PyStr ''about'')
       (PyStr ''see also'') (PyBool True) (PyObj ''parser'') (PyBool True) (PyBool False)
       (PyFunc ''main'' []) 0)"
    by (rule parser_arguments_forwarded_to_autoparse [where h = exiting_helpers
      and module = "PyStr ''__main__''" and description = "PyStr ''about''"
      and epilog = "PyStr ''see also''" and add_nos = "PyBool True"
      and parser = "PyObj ''parser''" and loop = "PyBool True" and forever = "PyBool False"
      and func = "PyFunc ''main'' []" and w = 0, THEN conjunct2, THEN conjunct1, THEN spec,
      THEN spec, THEN mp, OF step1])
qed

text \<open>
  C6. Whenever \<^verbatim>\<open>loop\<close> is not \<^verbatim>\<open>None\<close>, the decorator evaluates the loop argument and then
  calls \<^verbatim>\<open>autoasync\<close> with \<open>func\<close>, that loop and \<^verbatim>\<open>forever\<close> as given to \<^verbatim>\<open>autocommand\<close>;
  every call of \<^verbatim>\<open>autoasync\<close> in the log carries \<open>func\<close> and that value of \<^verbatim>\<open>forever\<close>.
\<close>

theorem forever_forwarded_to_autoasync:
  "(loop \<noteq> PyNone \<longrightarrow>
      autocommand_decorator h module description epilog add_nos parser loop forever func =
        bind_py (if loop = PyBool True then get_event_loop h else return_py loop)
          (\<lambda>loop_arg. bind_py (autoasync h func loop_arg forever)
             (autoparse_automain_steps h module description epilog add_nos parser))) \<and>
   (\<forall>c \<in> set (decorator_calls h module description epilog add_nos parser loop forever
        func w).
      \<forall>func' loop_arg forever'. c = AutoasyncCall func' loop_arg forever' \<longrightarrow>
        func' = func \<and> forever' = forever)"
proof (intro conjI ballI impI allI)
  assume "loop \<noteq> PyNone"
  then show "autocommand_decorator h module description epilog add_nos parser loop forever
      func =
        bind_py (if loop = PyBool True then get_event_loop h else return_py loop)
          (\<lambda>loop_arg. bind_py (autoasync h func loop_arg forever)
             (autoparse_automain_steps h module description epilog add_nos parser))"
    by (simp add: decorator_steps autoasync_step_def bind_py_assoc)
next
  fix c func' loop_arg forever'
  assume "c \<in> set (decorator_calls h module description epilog add_nos parser loop forever
        func w)" and "c = AutoasyncCall func' loop_arg forever'"
  then show "func' = func" and "forever' = forever"
    by (auto dest!: decorator_calls_members)
qed

text \<open>
  On the sample wrappers, with a loop object and \<^verbatim>\<open>forever=True\<close>.
\<close>

theorem forever_forwarded_to_autoasync_witness:
  "PyObj ''my_loop'' \<noteq> PyNone \<and>
   autocommand_decorator sample_helpers (PyStr ''__main__'') PyNone PyNone (PyBool False)
       PyNone (PyObj ''my_loop'') (PyBool True) (PyFunc ''main'' []) =
     bind_py (autoasync sample_helpers (PyFunc ''main'' []) (PyObj ''my_loop'') (PyBool True))
       (autoparse_automain_steps sample_helpers (PyStr ''__main__'') PyNone PyNone
          (PyBool False) PyNone)"
  using forever_forwarded_to_autoasync [of "PyObj ''my_loop''" sample_helpers
      "PyStr ''__main__''" PyNone PyNone "PyBool False" PyNone "PyBool True"
      "PyFunc ''main'' []" 0]
  by (simp add: bind_py_return_left)

text \<open>
  C7. \<^verbatim>\<open>True\<close> is special for \<^verbatim>\<open>loop\<close>: the decorator then calls \<^verbatim>\<open>get_event_loop()\<close> and
  passes its result to \<^verbatim>\<open>autoasync\<close>. The call is made when the decorator is applied, as
  its first call, and not when \<^verbatim>\<open>autocommand\<close> is called. Every other value of \<^verbatim>\<open>loop\<close>
  that is not \<^verbatim>\<open>None\<close> is passed to \<^verbatim>\<open>autoasync\<close> as it is, in the first call of the
  decorator.
\<close>

theorem loop_true_means_get_event_loop:
  "autocommand_decorator h module description epilog add_nos parser (PyBool True) forever
       func =
     bind_py (get_event_loop h)
       (\<lambda>loop_arg. bind_py (autoasync h func loop_arg forever)
          (autoparse_automain_steps h module description epilog add_nos parser)) \<and>
   (loop \<noteq> PyNone \<longrightarrow> loop \<noteq> PyBool True \<longrightarrow>
      autocommand_decorator h module description epilog add_nos parser loop forever func =
        bind_py (autoasync h func loop forever)
          (autoparse_automain_steps h module description epilog add_nos parser)) \<and>
   snd (autocommand (recording h) module description epilog add_nos parser (PyBool True)
          forever (w, log)) = (w, log) \<and>
   (\<forall>loop_arg. fst (get_event_loop h w) = Inr loop_arg \<longrightarrow>
      take 2 (decorator_calls h module description epilog add_nos parser (PyBool True)
                forever func w) =
        [GetEventLoopCall, AutoasyncCall func loop_arg forever]) \<and>
   (loop \<noteq> PyNone \<longrightarrow> loop \<noteq> PyBool True \<longrightarrow>
      take 1 (decorator_calls h module description epilog add_nos parser loop forever
                func w) =
        [AutoasyncCall func loop forever])"
  by (simp add: decorator_steps autoasync_step_def bind_py_assoc bind_py_return_left
      autocommand_def decorator_calls_steps autoasync_step_calls_def)

text \<open>
  On the sample wrappers: \<^verbatim>\<open>loop=True\<close> passes the event loop that \<^verbatim>\<open>get_event_loop()\<close>
  returns; \<^verbatim>\<open>loop=1\<close>, which is equal to \<^verbatim>\<open>True\<close> but is not \<^verbatim>\<open>True\<close>, is passed as it is.
\<close>

theorem loop_true_means_get_event_loop_witness:
  "fst (get_event_loop sample_helpers 0) = Inr (PyObj ''event_loop'') \<and>
   take 2 (decorator_calls sample_helpers (PyStr ''__main__'') PyNone PyNone (PyBool False)
     PyNone (PyBool True) (PyBool False) (PyFunc ''main'' []) 0) =
     [GetEventLoopCall, AutoasyncCall (PyFunc ''main'' []) (PyObj ''event_loop'') (PyBool False)] \<and>
   PyInt 1 \<noteq> PyNone \<and> PyInt 1 \<noteq> PyBool True \<and>
   take 1 (decorator_calls sample_helpers (PyStr ''__main__'') PyNone PyNone (PyBool False)
     PyNone (PyInt 1) (PyBool False) (PyFunc ''main'' []) 0) =
     [AutoasyncCall (PyFunc ''main'' []) (PyInt 1) (PyBool False)]"
  using loop_true_means_get_event_loop [of sample_helpers "PyStr ''__main__''" PyNone PyNone
      "PyBool False" PyNone "PyBool False" "PyFunc ''main'' []" "PyInt 1" 0 "[]"]
  by simp

text \<open>
  C8. With \<^verbatim>\<open>loop=None\<close> the result does not depend on \<^verbatim>\<open>forever\<close>: two calls of
  \<^verbatim>\<open>autocommand\<close> that differ only in \<^verbatim>\<open>forever\<close> have the same outcome, their decorators
  are the same computation for every \<open>func\<close>, and they make the same calls.
\<close>

theorem forever_ignored_without_loop:
  "autocommand h module description epilog add_nos parser PyNone forever1 =
     autocommand h module description epilog add_nos parser PyNone forever2 \<and>
   autocommand_decorator h module description epilog add_nos parser PyNone forever1 =
     autocommand_decorator h module description epilog add_nos parser PyNone forever2 \<and>
   decorator_calls h module description epilog add_nos parser PyNone forever1 func w =
     decorator_calls h module description epilog add_nos parser PyNone forever2 func w"
  by (simp add: autocommand_def decorator_calls_def decorator_without_loop fun_eq_iff)

text \<open>
  On the sample wrappers, \<^verbatim>\<open>forever=False\<close> against \<^verbatim>\<open>forever=True\<close>.
\<close>

theorem forever_ignored_without_loop_witness:
  "autocommand sample_helpers (PyStr ''__main__'') PyNone PyNone (PyBool False) PyNone PyNone
     (PyBool False) =
   autocommand sample_helpers (PyStr ''__main__'') PyNone PyNone (PyBool False) PyNone PyNone
     (PyBool True) \<and>
   decorator_calls sample_helpers (PyStr ''__main__'') PyNone PyNone (PyBool False) PyNone
     PyNone (PyBool False) (PyFunc ''main'' []) 0 =
   decorator_calls sample_helpers (PyStr ''__main__'') PyNone PyNone (PyBool False) PyNone
     PyNone (PyBool True) (PyFunc ''main'' []) 0"
  using forever_ignored_without_loop [of sample_helpers "PyStr ''__main__''" PyNone PyNone
      "PyBool False" PyNone "PyBool False" "PyBool True" "PyFunc ''main'' []" 0]
  by simp

text \<open>
  C9. The check accepts every module that is not callable, \<^verbatim>\<open>True\<close> and \<^verbatim>\<open>None\<close> among
  them, and \<^verbatim>\<open>autocommand\<close> then returns the decorator. The decorator passes the module
  to \<^verbatim>\<open>automain\<close> as it is, and \<^verbatim>\<open>automain(module)\<close> is the outermost wrapper: the
  decorator computes the inner function (steps 1 and 2) and hands it to
  \<^verbatim>\<open>automain(module)\<close>; every \<^verbatim>\<open>automain\<close> call in the log carries the module, and a
  decoration that returns ends with the call of the decorator of \<^verbatim>\<open>automain(module)\<close>.
\<close>

theorem module_forwarded_to_automain:
  "\<not> callable (PyBool True) \<and> \<not> callable PyNone \<and>
   (\<not> callable module \<longrightarrow>
      autocommand h module description epilog add_nos parser loop forever w =
        (Inr (autocommand_decorator h module description epilog add_nos parser loop forever),
         w)) \<and>
   autocommand_decorator h module description epilog add_nos parser loop forever func =
     bind_py
       (bind_py (autoasync_step h loop forever func)
          (\<lambda>func1. autoparse h func1 description epilog add_nos parser))
       (\<lambda>func2. bind_py (automain h module) (\<lambda>automain_decorator. automain_decorator func2)) \<and>
   (\<forall>c \<in> set (decorator_calls h module description epilog add_nos parser loop forever
        func w).
      (\<forall>m. c = AutomainCall m \<longrightarrow> m = module) \<and>
      (\<forall>m func2. c = DecoratorCall m func2 \<longrightarrow> m = module)) \<and>
   ((\<exists>v. fst (autocommand_decorator h module description epilog add_nos parser loop forever
        func w) = Inr v) \<longrightarrow>
      AutomainCall module \<in>
        set (decorator_calls h module description epilog add_nos parser loop forever func w) \<and>
      (\<exists>func2. last (decorator_calls h module description epilog add_nos parser loop forever
         func w) = DecoratorCall module func2))"
proof (intro conjI ballI impI allI)
  show "\<not> callable (PyBool True)" and "\<not> callable PyNone"
    by simp_all
next
  assume "\<not> callable module"
  then show "autocommand h module description epilog add_nos parser loop forever w =
        (Inr (autocommand_decorator h module description epilog add_nos parser loop forever),
         w)"
    by (simp add: autocommand_def)
next
  show "autocommand_decorator h module description epilog add_nos parser loop forever func =
     bind_py
       (bind_py (autoasync_step h loop forever func)
          (\<lambda>func1. autoparse h func1 description epilog add_nos parser))
       (\<lambda>func2. bind_py (automain h module) (\<lambda>automain_decorator. automain_decorator func2))"
    by (simp add: decorator_steps autoparse_automain_steps_def [abs_def] bind_py_assoc)
next
  fix c m
  assume "c \<in> set (decorator_calls h module description epilog add_nos parser loop forever
        func w)" and "c = AutomainCall m"
  then show "m = module"
    by (auto dest!: decorator_calls_members)
next
  fix c m func2
  assume "c \<in> set (decorator_calls h module description epilog add_nos parser loop forever
        func w)" and "c = DecoratorCall m func2"
  then show "m = module"
    by (auto dest!: decorator_calls_members)
next
  assume "\<exists>v. fst (autocommand_decorator h module description epilog add_nos parser loop
    forever func w) = Inr v"
  then obtain v where returned: "fst (autocommand_decorator h module description epilog
    add_nos parser loop forever func w) = Inr v" ..
  from decorator_returns [OF returned] show "AutomainCall module \<in>
        set (decorator_calls h module description epilog add_nos parser loop forever func w)"
    by auto
  from decorator_returns [OF returned] show
    "\<exists>func2. last (decorator_calls h module description epilog add_nos parser loop forever
         func w) = DecoratorCall module func2"
    by auto
qed

text \<open>
  On the sample wrappers, \<^verbatim>\<open>autocommand(True)\<close>.
\<close>

theorem module_forwarded_to_automain_witness:
  "\<not> callable (PyBool True) \<and>
   autocommand sample_helpers (PyBool True) PyNone PyNone (PyBool False) PyNone PyNone
     (PyBool False) 0 =
     (Inr (autocommand_decorator sample_helpers (PyBool True) PyNone PyNone (PyBool False)
        PyNone PyNone (PyBool False)), 0) \<and>
   (\<exists>v. fst (autocommand_decorator sample_helpers (PyBool True) PyNone PyNone (PyBool False)
      PyNone PyNone (PyBool False) (PyFunc ''main'' []) 0) = Inr v) \<and>
   AutomainCall (PyBool True) \<in>
     set (decorator_calls sample_helpers (PyBool True) PyNone PyNone (PyBool False) PyNone
       PyNone (PyBool False) (PyFunc ''main'' []) 0) \<and>
   (\<exists>func2. last (decorator_calls sample_helpers (PyBool True) PyNone PyNone (PyBool False)
      PyNone PyNone (PyBool False) (PyFunc ''main'' []) 0) = DecoratorCall (PyBool True) func2)"
proof -
  have returned: "\<exists>v. fst (autocommand_decorator sample_helpers (PyBool True) PyNone PyNone
      (PyBool False) PyNone PyNone (PyBool False) (PyFunc ''main'' []) 0) = Inr v"
    by (simp add: sample_decorator_run)
  from module_forwarded_to_automain [where h = sample_helpers and module = "PyBool True"
      and description = PyNone and epilog = PyNone and add_nos = "PyBool False"
      and parser = PyNone and loop = PyNone and forever = "PyBool False"
      and func = "PyFunc ''main'' []" and w = 0] returned
  show ?thesis
    by blast
qed

end
